theory Spec2Isabelle
  imports Main "HOL-Library.AList"
begin

section \<open>JavaScript values\<close>

text \<open>
  The proxy handles loosely typed JSON: \<^verbatim>\<open>req.body\<close> is \<^verbatim>\<open>any\<close>, the upstream body is a
  \<^verbatim>\<open>Record<string, any>\<close>. Values are modelled by the datatype below. A number is an
  \<open>int\<close>: every number the modelled code touches is a counter, a timestamp or a status
  code. A string is a list of 8-bit code units; the code inspects only ASCII characters
  (digits, letters of the model names, \<open>.\<close> and \<open>-\<close>), every other code unit is just
  "another character" to it. An object is an association list read with \<open>map_of\<close>; a
  missing property reads as \<open>JUndefined\<close>, as in JavaScript.
\<close>

datatype jsval =
    JUndefined
  | JNull
  | JBool bool
  | JNum int
  | JStr string
  | JArr "jsval list"
  | JObj "(string \<times> jsval) list"

type_synonym obj = "(string \<times> jsval) list"

datatype error = TypeError | Error string

text \<open>Property read \<^verbatim>\<open>o.k\<close> and property write \<^verbatim>\<open>o.k = v\<close> on an object.\<close>

definition get :: "obj \<Rightarrow> string \<Rightarrow> jsval" where
  "get ob k = (case map_of ob k of None \<Rightarrow> JUndefined | Some v \<Rightarrow> v)"

definition put :: "obj \<Rightarrow> string \<Rightarrow> jsval \<Rightarrow> obj" where
  "put ob k v = AList.update k v ob"

text \<open>
  Object spread \<^verbatim>\<open>{...a, ...b}\<close>: the properties of \<open>b\<close> override those of \<open>a\<close>. Objects
  are compared through \<open>get\<close>; the order in which new properties are appended is not
  modelled.
\<close>

definition spread :: "obj \<Rightarrow> obj \<Rightarrow> obj" where
  "spread a b = AList.merge a b"

text \<open>JavaScript truthiness, as used by \<^verbatim>\<open>Boolean(v)\<close>, \<^verbatim>\<open>!v\<close> and \<^verbatim>\<open>if (v)\<close>.\<close>

fun truthy :: "jsval \<Rightarrow> bool" where
  "truthy JUndefined = False"
| "truthy JNull = False"
| "truthy (JBool b) = b"
| "truthy (JNum n) = (n \<noteq> 0)"
| "truthy (JStr s) = (s \<noteq> [])"
| "truthy (JArr xs) = True"
| "truthy (JObj ob) = True"

text \<open>\<^verbatim>\<open>String.prototype.includes\<close>: does \<open>sub\<close> occur in \<open>s\<close> as a contiguous substring?\<close>

fun starts_with :: "string \<Rightarrow> string \<Rightarrow> bool" where
  "starts_with s [] = True"
| "starts_with [] (c # cs) = False"
| "starts_with (x # xs) (c # cs) = (x = c \<and> starts_with xs cs)"

fun str_includes :: "string \<Rightarrow> string \<Rightarrow> bool" where
  "str_includes [] sub = (sub = [])"
| "str_includes (x # xs) sub = (starts_with (x # xs) sub \<or> str_includes xs sub)"

text \<open>
  The method call \<^verbatim>\<open>v.includes(needle)\<close> on an arbitrary value: a string searches for a
  substring, an array for an element equal to the needle, and every other value has no
  such method (or, for \<^verbatim>\<open>undefined\<close> and \<^verbatim>\<open>null\<close>, no properties at all), which raises
  a TypeError.
\<close>

fun includes_method :: "jsval \<Rightarrow> string \<Rightarrow> error + bool" where
  "includes_method (JStr s) needle = Inr (str_includes s needle)"
| "includes_method (JArr xs) needle = Inr (JStr needle \<in> set xs)"
| "includes_method v needle = Inl TypeError"

section \<open>The request\<close>

text \<open>
  The dialects the routes of this router use: \<^verbatim>\<open>"openai"\<close>, \<^verbatim>\<open>"anthropic-text"\<close> and
  \<^verbatim>\<open>"anthropic-chat"\<close>.
\<close>

datatype api = openai | anthropic_text | anthropic_chat

text \<open>
  The parts of the Express request that the modelled handlers read or write:
  \<^verbatim>\<open>req.params.action\<close>, \<^verbatim>\<open>req.body\<close>, \<^verbatim>\<open>req.inboundApi\<close>, \<^verbatim>\<open>req.outboundApi\<close>,
  \<^verbatim>\<open>req.promptTokens\<close>, \<^verbatim>\<open>req.outputTokens\<close> and \<^verbatim>\<open>req.id\<close>. Handlers mutate the request
  in place; here they return the updated request.
\<close>

record request =
  params_action :: string
  body :: obj
  inboundApi :: api
  outboundApi :: api
  promptTokens :: "int option"
  outputTokens :: "int option"
  req_id :: string

definition set_model :: "request \<Rightarrow> string \<Rightarrow> request" where
  "set_model req m = req\<lparr>body := put (body req) ''model'' (JStr m)\<rparr>"

section \<open>Model reconciliation\<close>

definition LATEST_AWS_V2_MINOR_VERSION :: string where
  "LATEST_AWS_V2_MINOR_VERSION = ''1''"

text \<open>
  The pattern of \<^verbatim>\<open>maybeReassignModel\<close> is
  \<^verbatim>\<open>/^(claude-)?(instant-)?(v)?(\d+)([.-](\d{1}))?(-\d+k)?(-sonnet-|-opus-|-haiku-)?(\d*)/i\<close>.
  It is anchored at the start only, and everything after \<^verbatim>\<open>(\d+)\<close> is optional or may
  be empty. So once \<^verbatim>\<open>(\d+)\<close> has matched, the rest cannot fail and the engine never
  backtracks into an earlier choice: each greedy piece keeps its first, longest match.
  Before \<^verbatim>\<open>(\d+)\<close>, giving up an optional prefix that did match leaves a letter
  (\<open>c\<close>, \<open>i\<close> or \<open>v\<close>) where the next pieces need \<open>i\<close>, \<open>v\<close> or a digit, so no other
  way of matching exists either. The match is therefore the left-to-right greedy parse
  written below. The flag \<^verbatim>\<open>i\<close> makes letters match in either case; \<^verbatim>\<open>\d\<close> is an ASCII
  digit.
\<close>

definition is_digit :: "char \<Rightarrow> bool" where
  "is_digit c = (c \<in> set ''0123456789'')"

definition lower :: "char \<Rightarrow> char" where
  "lower c =
     (case map_of (zip ''ABCDEFGHIJKLMNOPQRSTUVWXYZ'' ''abcdefghijklmnopqrstuvwxyz'') c of
        None \<Rightarrow> c
      | Some l \<Rightarrow> l)"

text \<open>An optional literal group \<^verbatim>\<open>(lit)?\<close>: the captured text, if any, and the rest.\<close>

definition opt_literal :: "string \<Rightarrow> string \<Rightarrow> string option \<times> string" where
  "opt_literal lit s =
     (if length lit \<le> length s \<and> map lower (take (length lit) s) = map lower lit
      then (Some (take (length lit) s), drop (length lit) s)
      else (None, s))"

text \<open>An optional alternation \<^verbatim>\<open>(a|b|c)?\<close>: the first alternative that matches wins.\<close>

fun opt_alternatives :: "string list \<Rightarrow> string \<Rightarrow> string option \<times> string" where
  "opt_alternatives [] s = (None, s)"
| "opt_alternatives (lit # lits) s =
     (case opt_literal lit s of
        (Some t, r) \<Rightarrow> (Some t, r)
      | (None, _) \<Rightarrow> opt_alternatives lits s)"

text \<open>The group \<^verbatim>\<open>([.-](\d{1}))?\<close>: separator and one digit; captures both groups.\<close>

fun opt_minor :: "string \<Rightarrow> string option \<times> string option \<times> string" where
  "opt_minor (c # d # r) =
     (if (c = CHR ''.'' \<or> c = CHR ''-'') \<and> is_digit d
      then (Some [c, d], Some [d], r)
      else (None, None, c # d # r))"
| "opt_minor s = (None, None, s)"

text \<open>The group \<^verbatim>\<open>(-\d+k)?\<close>: a hyphen, all the digits that follow (at least one), \<open>k\<close>.\<close>

fun opt_ctx :: "string \<Rightarrow> string option \<times> string" where
  "opt_ctx [] = (None, [])"
| "opt_ctx (c # r) =
     (let ds = takeWhile is_digit r; r' = dropWhile is_digit r in
      if c = CHR ''-'' \<and> ds \<noteq> [] \<and> r' \<noteq> [] \<and> lower (hd r') = CHR ''k''
      then (Some (c # ds @ [hd r']), tl r')
      else (None, c # r))"

text \<open>
  The array returned by \<^verbatim>\<open>model.match(pattern)\<close>, without its element 0 (the whole
  match, which the code ignores). A group that did not take part is \<^verbatim>\<open>undefined\<close>,
  here \<open>None\<close>; groups 4 and 9 always take part.
\<close>

record match_groups =
  g_cl :: "string option"
  g_instant :: "string option"
  g_v :: "string option"
  g_major :: string
  g_sep :: "string option"
  g_minor :: "string option"
  g_ctx :: "string option"
  g_name :: "string option"
  g_rev :: string

definition match_pattern :: "string \<Rightarrow> match_groups option" where
  "match_pattern model =
     (let (cl, s1) = opt_literal ''claude-'' model;
          (instant, s2) = opt_literal ''instant-'' s1;
          (v, s3) = opt_literal ''v'' s2;
          major = takeWhile is_digit s3;
          s4 = dropWhile is_digit s3
      in if major = [] then None
         else
           let (sep, minor, s5) = opt_minor s4;
               (ctx, s6) = opt_ctx s5;
               (name, s7) = opt_alternatives [''-sonnet-'', ''-opus-'', ''-haiku-''] s6;
               rev = takeWhile is_digit s7
           in Some \<lparr>g_cl = cl, g_instant = instant, g_v = v, g_major = major,
                     g_sep = sep, g_minor = minor, g_ctx = ctx, g_name = name,
                     g_rev = rev\<rparr>)"

text \<open>
  \<^verbatim>\<open>maybeReassignModel(req)\<close>; \<open>ver\<close> is its local constant of that name and
  \<open>reassign_string\<close> the part of its body after the test for a native id. The source
  reads \<^verbatim>\<open>req.body.model\<close> and calls \<^verbatim>\<open>model.includes\<close>, then \<^verbatim>\<open>model.match\<close>: a value that is not a string raises a
  TypeError at one of the two (an array has \<^verbatim>\<open>includes\<close> but no \<^verbatim>\<open>match\<close>). In the
  branch for version 3 the source calls \<^verbatim>\<open>name.includes\<close> on capture group 8, which is
  \<^verbatim>\<open>undefined\<close> when the group did not take part: a TypeError again.
\<close>

definition ver :: "match_groups \<Rightarrow> string" where
  "ver m = (case g_minor m of
              Some minor \<Rightarrow> g_major m @ ''.'' @ minor
            | None \<Rightarrow> g_major m)"

definition reassign_string :: "request \<Rightarrow> string \<Rightarrow> error + request" where
  "reassign_string req model =
     (case match_pattern model of
        None \<Rightarrow> Inr (set_model req (''anthropic.claude-v2:'' @ LATEST_AWS_V2_MINOR_VERSION))
      | Some m \<Rightarrow>
          if g_instant m \<noteq> None then Inr (set_model req ''anthropic.claude-instant-v1'')
          else if ver m = ''1'' \<or> ver m = ''1.0''
          then Inr (set_model req ''anthropic.claude-v1'')
          else if ver m = ''2'' \<or> ver m = ''2.0''
          then Inr (set_model req ''anthropic.claude-v2'')
          else if ver m = ''3'' \<or> ver m = ''3.0'' then
            (case g_name m of
               None \<Rightarrow> Inl TypeError
             | Some name \<Rightarrow>
                 if str_includes name ''opus''
                 then Inr (set_model req ''anthropic.claude-3-opus-20240229-v1:0'')
                 else if str_includes name ''haiku''
                 then Inr (set_model req ''anthropic.claude-3-haiku-20240307-v1:0'')
                 else Inr (set_model req ''anthropic.claude-3-sonnet-20240229-v1:0''))
          else if ver m = ''3.5''
          then Inr (set_model req ''anthropic.claude-3-5-sonnet-20240620-v1:0'')
          else Inr (set_model req (''anthropic.claude-v2:'' @ LATEST_AWS_V2_MINOR_VERSION)))"

definition maybeReassignModel :: "request \<Rightarrow> error + request" where
  "maybeReassignModel req =
     (case get (body req) ''model'' of
        JStr model \<Rightarrow>
          if str_includes model ''anthropic.claude'' then Inr req
          else reassign_string req model
      | JArr xs \<Rightarrow>
          if JStr ''anthropic.claude'' \<in> set xs then Inr req else Inl TypeError
      | _ \<Rightarrow> Inl TypeError)"

section \<open>Routing by model name\<close>

text \<open>
  \<^verbatim>\<open>createPreprocessorMiddleware(spec, hooks)\<close> lives outside the modelled files. A
  preprocessor is represented by the arguments it was created with: the inbound and the
  outbound dialect, the service, and the hooks that run after the body has been
  transformed.
\<close>

record preprocessor =
  inApi :: api
  outApi :: api
  service :: string
  afterTransform :: "(request \<Rightarrow> error + request) list"

definition nativeTextPreprocessor :: preprocessor where
  "nativeTextPreprocessor =
     \<lparr>inApi = anthropic_text, outApi = anthropic_text, service = ''aws'',
      afterTransform = [maybeReassignModel]\<rparr>"

definition textToChatPreprocessor :: preprocessor where
  "textToChatPreprocessor =
     \<lparr>inApi = anthropic_text, outApi = anthropic_chat, service = ''aws'',
      afterTransform = [maybeReassignModel]\<rparr>"

definition oaiToAwsTextPreprocessor :: preprocessor where
  "oaiToAwsTextPreprocessor =
     \<lparr>inApi = openai, outApi = anthropic_text, service = ''aws'',
      afterTransform = [maybeReassignModel]\<rparr>"

definition oaiToAwsChatPreprocessor :: preprocessor where
  "oaiToAwsChatPreprocessor =
     \<lparr>inApi = openai, outApi = anthropic_chat, service = ''aws'',
      afterTransform = [maybeReassignModel]\<rparr>"

text \<open>
  The condition \<^verbatim>\<open>req.body.model?.includes("claude-3")\<close>: optional chaining yields
  \<^verbatim>\<open>undefined\<close>, which is falsy, when the model is \<^verbatim>\<open>undefined\<close> or \<^verbatim>\<open>null\<close>.
\<close>

definition optional_includes :: "jsval \<Rightarrow> string \<Rightarrow> error + bool" where
  "optional_includes v needle =
     (case v of
        JUndefined \<Rightarrow> Inr False
      | JNull \<Rightarrow> Inr False
      | _ \<Rightarrow> includes_method v needle)"

text \<open>
  \<^verbatim>\<open>preprocessAwsTextRequest\<close> and \<^verbatim>\<open>preprocessOpenAICompatRequest\<close>: the result is the
  preprocessor the request is handed to. Both look at \<^verbatim>\<open>req.body.model\<close> as the client
  sent it; \<^verbatim>\<open>maybeReassignModel\<close> runs later, as a hook of the chosen preprocessor.
\<close>

definition preprocessAwsTextRequest :: "request \<Rightarrow> error + preprocessor" where
  "preprocessAwsTextRequest req =
     (case optional_includes (get (body req) ''model'') ''claude-3'' of
        Inl e \<Rightarrow> Inl e
      | Inr b \<Rightarrow> Inr (if b then textToChatPreprocessor else nativeTextPreprocessor))"

definition preprocessOpenAICompatRequest :: "request \<Rightarrow> error + preprocessor" where
  "preprocessOpenAICompatRequest req =
     (case optional_includes (get (body req) ''model'') ''claude-3'' of
        Inl e \<Rightarrow> Inl e
      | Inr b \<Rightarrow> Inr (if b then oaiToAwsChatPreprocessor else oaiToAwsTextPreprocessor))"

section \<open>Response handling\<close>


record response =
  status :: int
  json :: obj







section \<open>The compatibility endpoint\<close>

text \<open>The options \<^verbatim>\<open>handleCompatibilityRequest\<close> passes to \<^verbatim>\<open>sendErrorToClient\<close>.\<close>

record error_options =
  title :: string
  message :: string
  format :: string
  statusCode :: int
  reqId :: string
  obj :: obj

text \<open>
  Modelled from the spec: \<^verbatim>\<open>sendErrorToClient\<close> (\<^verbatim>\<open>./middleware/response/error-generator\<close>)
  is not among the modelled files. The spec gives the client-visible envelope as
  \<^verbatim>\<open>{ error: { title, message, type }, statusCode, requestId, ...optional contextual fields }\<close>,
  sent with the status code of the error. The spec does not fix the value of \<^verbatim>\<open>type\<close>;
  it is an argument.
\<close>

definition sendErrorToClient :: "string \<Rightarrow> error_options \<Rightarrow> response" where
  "sendErrorToClient ty opts =
     \<lparr>status = statusCode opts,
      json = spread [(''error'', JObj [(''title'', JStr (title opts)),
                                       (''message'', JStr (message opts)),
                                       (''type'', JStr ty)]),
                     (''statusCode'', JNum (statusCode opts)),
                     (''requestId'', JStr (reqId opts))]
                    (obj opts)\<rparr>"

text \<open>
  What a middleware did with a request: it answered the client itself, or it called
  \<^verbatim>\<open>next()\<close> and so passed the (updated) request on to the preprocessor and the proxy.
\<close>

datatype outcome = Responded response | Next request

definition compatModel :: string where
  "compatModel = ''anthropic.claude-3-5-sonnet-20240620-v1:0''"

text \<open>The options object of the error the handler sends, for the request id \<open>rid\<close>.\<close>

definition misuse_options :: "string \<Rightarrow> error_options" where
  "misuse_options rid =
     \<lparr>title = ''Unnecessary usage of compatibility endpoint'',
      message = ''Your client seems to already support the new Claude API format. This endpoint is intended for clients that do not yet support the new format.''
                @ [CHR 0x0A]
                @ ''Use the normal `/aws/claude` proxy endpoint instead.'',
      format = ''unknown'',
      statusCode = 400,
      reqId = rid,
      obj = [(''requested_endpoint'', JStr ''/aws/claude/sonnet''),
             (''correct_endpoint'', JStr ''/aws/claude'')]\<rparr>"

text \<open>
  \<^verbatim>\<open>handleCompatibilityRequest(req, res, next)\<close>; the function that sends the error is an
  argument. The log line has no effect on the request and is left out.
\<close>

definition handleCompatibilityRequest ::
  "(error_options \<Rightarrow> response) \<Rightarrow> request \<Rightarrow> outcome" where
  "handleCompatibilityRequest send req =
     (let action = params_action req;
          alreadyInChatFormat = truthy (get (body req) ''messages'')
      in if action = ''messages'' \<or> alreadyInChatFormat
         then Responded (send (misuse_options (req_id req)))
         else Next (set_model req compatModel))"

section \<open>Serialising Google PaLM keys\<close>

text \<open>
  A key and its serialised record are objects. \<^verbatim>\<open>serialize\<close> returns
  \<^verbatim>\<open>{ key: key.key }\<close>; the list \<^verbatim>\<open>SERIALIZABLE_FIELDS\<close> only shapes the type of the record.
\<close>

definition SERIALIZABLE_FIELDS :: "string list" where
  "SERIALIZABLE_FIELDS = [''key'', ''service'', ''hash'', ''bisonTokens'']"

definition serialize :: "obj \<Rightarrow> obj" where
  "serialize key = [(''key'', get key ''key'')]"

text \<open>
  \<^verbatim>\<open>deserialize(serializedKey)\<close>. The SHA-256 digest in hexadecimal comes from Node's
  \<^verbatim>\<open>crypto\<close> module and is an argument; \<^verbatim>\<open>update(key)\<close> raises a TypeError when the key is
  not a string. The defaults come first and the remaining properties of the record are
  spread over them.
\<close>

definition deserialize :: "(string \<Rightarrow> string) \<Rightarrow> obj \<Rightarrow> error + obj" where
  "deserialize sha256_hex serializedKey =
     (let key = get serializedKey ''key'';
          rest = AList.delete ''key'' serializedKey
      in case key of
           JStr k \<Rightarrow>
             Inr (spread
                    [(''key'', key),
                     (''service'', JStr ''google-palm''),
                     (''modelFamilies'', JArr [JStr ''bison'']),
                     (''isDisabled'', JBool False),
                     (''isRevoked'', JBool False),
                     (''promptCount'', JNum 0),
                     (''lastUsed'', JNum 0),
                     (''rateLimitedAt'', JNum 0),
                     (''rateLimitedUntil'', JNum 0),
                     (''hash'', JStr (''plm-'' @ take 8 (sha256_hex k))),
                     (''lastChecked'', JNum 0),
                     (''bisonTokens'', JNum 0)]
                    rest)
         | _ \<Rightarrow> Inl TypeError)"

section \<open>Example inputs\<close>

text \<open>A request to the text completion route that asks for the model \<open>m\<close>.\<close>

definition request_with_model :: "string \<Rightarrow> request" where
  "request_with_model m =
     \<lparr>params_action = ''complete'', body = [(''model'', JStr m)],
      inboundApi = anthropic_text, outboundApi = anthropic_text,
      promptTokens = None, outputTokens = None, req_id = ''req-1''\<rparr>"

text \<open>A key that has been used, rate limited and disabled.\<close>

definition example_key :: obj where
  "example_key =
     [(''key'', JStr ''AIzaSy-example''),
      (''service'', JStr ''google-palm''),
      (''modelFamilies'', JArr [JStr ''bison'']),
      (''isDisabled'', JBool True),
      (''isRevoked'', JBool False),
      (''promptCount'', JNum 42),
      (''lastUsed'', JNum 1700000000000),
      (''rateLimitedAt'', JNum 1700000000500),
      (''rateLimitedUntil'', JNum 1700000060500),
      (''hash'', JStr ''plm-0a1b2c3d''),
      (''lastChecked'', JNum 1699999999000),
      (''bisonTokens'', JNum 9000)]"

text \<open>A stand-in for the digest, used where a concrete function is needed.\<close>

definition example_digest :: "string \<Rightarrow> string" where
  "example_digest s = ''5e884898da28047151d0e56f8dc6292773603d0d6aabbdd62a11ef721d1542d8''"

section \<open>Objects\<close>

lemma get_put_same: "get (put ob k v) k = v"
  by (simp add: get_def put_def update_conv')


lemma get_set_model: "get (body (set_model req m)) ''model'' = JStr m"
  by (simp add: set_model_def get_put_same)

lemma get_spread:
  "get (spread a b) k = (case map_of b k of None \<Rightarrow> get a k | Some v \<Rightarrow> v)"
  by (simp add: get_def spread_def merge_conv' map_add_def split: option.splits)

text \<open>\<open>str_includes\<close> is the substring relation.\<close>

lemma starts_with_iff: "starts_with s sub \<longleftrightarrow> (\<exists>r. s = sub @ r)"
  by (induction s sub rule: starts_with.induct) auto

lemma str_includes_iff: "str_includes s sub \<longleftrightarrow> (\<exists>p r. s = p @ sub @ r)"
proof (induction s)
  case Nil
  then show ?case by auto
next
  case (Cons x xs)
  show ?case
  proof
    assume "str_includes (x # xs) sub"
    then consider "starts_with (x # xs) sub" | "str_includes xs sub" by auto
    then show "\<exists>p r. x # xs = p @ sub @ r"
    proof cases
      case 1
      then obtain r where "x # xs = [] @ sub @ r" by (auto simp: starts_with_iff)
      then show ?thesis by blast
    next
      case 2
      with Cons.IH obtain p r where "xs = p @ sub @ r" by blast
      then have "x # xs = (x # p) @ sub @ r" by simp
      then show ?thesis by blast
    qed
  next
    assume "\<exists>p r. x # xs = p @ sub @ r"
    then obtain p r where pr: "x # xs = p @ sub @ r" by blast
    show "str_includes (x # xs) sub"
    proof (cases p)
      case Nil
      with pr have "starts_with (x # xs) sub" by (auto simp: starts_with_iff)
      then show ?thesis by simp
    next
      case (Cons y ys)
      with pr have "xs = ys @ sub @ r" by simp
      with Cons.IH have "str_includes xs sub" by blast
      then show ?thesis by simp
    qed
  qed
qed

section \<open>Properties of model reconciliation\<close>

lemmas eval_defs = maybeReassignModel_def reassign_string_def ver_def get_def put_def
  set_model_def match_pattern_def opt_literal_def lower_def is_digit_def
  LATEST_AWS_V2_MINOR_VERSION_def request_with_model_def

text \<open>Every id that reconciliation can write is a native id.\<close>

lemma canonical_ids_native:
  "str_includes (''anthropic.claude-v2:'' @ LATEST_AWS_V2_MINOR_VERSION) ''anthropic.claude''"
  "str_includes ''anthropic.claude-instant-v1'' ''anthropic.claude''"
  "str_includes ''anthropic.claude-v1'' ''anthropic.claude''"
  "str_includes ''anthropic.claude-v2'' ''anthropic.claude''"
  "str_includes ''anthropic.claude-3-opus-20240229-v1:0'' ''anthropic.claude''"
  "str_includes ''anthropic.claude-3-haiku-20240307-v1:0'' ''anthropic.claude''"
  "str_includes ''anthropic.claude-3-sonnet-20240229-v1:0'' ''anthropic.claude''"
  "str_includes ''anthropic.claude-3-5-sonnet-20240620-v1:0'' ''anthropic.claude''"
  by (simp_all add: LATEST_AWS_V2_MINOR_VERSION_def)


lemma reassign_string_result:
  assumes "reassign_string req model = Inr req'"
  shows "\<exists>i. req' = set_model req i \<and> str_includes i ''anthropic.claude''"
  using assms canonical_ids_native
  unfolding reassign_string_def
  by (auto split: option.splits if_splits)

lemma maybeReassignModel_native:
  assumes "get (body req) ''model'' = JStr i" and "str_includes i ''anthropic.claude''"
  shows "maybeReassignModel req = Inr req"
  using assms by (simp add: maybeReassignModel_def)

lemma maybeReassignModel_string_result:
  assumes "get (body req) ''model'' = JStr m"
      and "maybeReassignModel req = Inr req'"
  shows "\<exists>i. get (body req') ''model'' = JStr i \<and> str_includes i ''anthropic.claude''
             \<and> (i = m \<longleftrightarrow> str_includes m ''anthropic.claude'')
             \<and> inboundApi req' = inboundApi req \<and> outboundApi req' = outboundApi req"
proof (cases "str_includes m ''anthropic.claude''")
  case True
  with assms have "req' = req" by (simp add: maybeReassignModel_def)
  with assms(1) True show ?thesis by simp
next
  case False
  with assms have "reassign_string req m = Inr req'"
    by (simp add: maybeReassignModel_def)
  then obtain i where i: "req' = set_model req i" "str_includes i ''anthropic.claude''"
    using reassign_string_result by blast
  from i have "get (body req') ''model'' = JStr i" by (simp add: get_set_model)
  moreover from i(2) False have "i \<noteq> m" by auto
  moreover from i(1) have "inboundApi req' = inboundApi req \<and> outboundApi req' = outboundApi req"
    by (simp add: set_model_def)
  ultimately show ?thesis using i(2) False by simp
qed

text \<open>The examples of the specification, run on the model.\<close>

lemma spec_examples:
  "maybeReassignModel (request_with_model ''claude-v2'')
     = Inr (request_with_model ''anthropic.claude-v2'')"
  "maybeReassignModel (request_with_model ''claude-3-opus-20240229'')
     = Inr (request_with_model ''anthropic.claude-3-opus-20240229-v1:0'')"
  "maybeReassignModel (request_with_model ''claude-instant-1'')
     = Inr (request_with_model ''anthropic.claude-instant-v1'')"
  "maybeReassignModel (request_with_model ''gpt-4'')
     = Inr (request_with_model ''anthropic.claude-v2:1'')"
  "maybeReassignModel (request_with_model ''claude-3-5-sonnet-20240620'')
     = Inr (request_with_model ''anthropic.claude-3-5-sonnet-20240620-v1:0'')"
  by (simp_all add: eval_defs)

text \<open>
  C1. The claim: for every model string \<^verbatim>\<open>maybeReassignModel\<close> returns normally and leaves
  one canonical id in \<^verbatim>\<open>req.body.model\<close>, also for a string of major version 3 that names
  no family. On the code this fails: for the model \<^verbatim>\<open>"claude-3"\<close> the pattern matches with
  version \<open>3\<close> and without a family group, and the call \<^verbatim>\<open>name.includes("opus")\<close> on the
  undefined group raises a TypeError, whatever the rest of the request is.
\<close>

theorem maybeReassignModel_claude_3_throws:
  "maybeReassignModel (req\<lparr>body := [(''model'', JStr ''claude-3'')]\<rparr>) = Inl TypeError"
  by (simp add: eval_defs)

text \<open>
  C5. Reconciliation is idempotent: whenever \<^verbatim>\<open>maybeReassignModel\<close> returns for a model
  string, the model it leaves is a string that contains \<^verbatim>\<open>anthropic.claude\<close>, that is, a
  native id, and running \<^verbatim>\<open>maybeReassignModel\<close> again returns the same request unchanged.
\<close>

theorem maybeReassignModel_idempotent:
  assumes "get (body req) ''model'' = JStr m"
      and "maybeReassignModel req = Inr req'"
  shows "\<exists>i. get (body req') ''model'' = JStr i \<and> str_includes i ''anthropic.claude''
             \<and> maybeReassignModel req' = Inr req'"
proof -
  from maybeReassignModel_string_result [OF assms]
  obtain i where "get (body req') ''model'' = JStr i" "str_includes i ''anthropic.claude''"
    by blast
  then show ?thesis by (auto intro: maybeReassignModel_native)
qed

theorem maybeReassignModel_idempotent_witness:
  "get (body (request_with_model ''claude-v2'')) ''model'' = JStr ''claude-v2''
   \<and> maybeReassignModel (request_with_model ''claude-v2'')
       = Inr (request_with_model ''anthropic.claude-v2'')
   \<and> maybeReassignModel (request_with_model ''anthropic.claude-v2'')
       = Inr (request_with_model ''anthropic.claude-v2'')"
proof -
  have a: "get (body (request_with_model ''claude-v2'')) ''model'' = JStr ''claude-v2''"
    by (simp add: get_def request_with_model_def)
  have b: "maybeReassignModel (request_with_model ''claude-v2'')
             = Inr (request_with_model ''anthropic.claude-v2'')"
    by (simp add: eval_defs)
  from maybeReassignModel_idempotent [OF a b]
  have "maybeReassignModel (request_with_model ''anthropic.claude-v2'')
          = Inr (request_with_model ''anthropic.claude-v2'')"
    by blast
  with a b show ?thesis by blast
qed

text \<open>
  C6. The claim: the version table maps 1 and 1.0 to the v1 id, 2 and 2.0 to the v2 id, 3
  and 3.0 to the dated id of the family with sonnet as the default when no family name
  matched, 3.5 to the dated sonnet-3.5 id and every other version to the fallback. The row
  for 3 and 3.0 fails on the code when no family name matched: \<^verbatim>\<open>"claude-3.0"\<close> matches the
  pattern, is not an instant model, has version \<open>3.0\<close> and no family group, and the result
  is a TypeError instead of the sonnet id.
\<close>

theorem version_3_0_without_family_throws:
  "match_pattern ''claude-3.0'' =
     Some \<lparr>g_cl = Some ''claude-'', g_instant = None, g_v = None, g_major = ''3'',
           g_sep = Some ''.0'', g_minor = Some ''0'', g_ctx = None, g_name = None,
           g_rev = []\<rparr>
   \<and> ver \<lparr>g_cl = Some ''claude-'', g_instant = None, g_v = None, g_major = ''3'',
           g_sep = Some ''.0'', g_minor = Some ''0'', g_ctx = None, g_name = None,
           g_rev = []\<rparr> = ''3.0''
   \<and> maybeReassignModel (request_with_model ''claude-3.0'') = Inl TypeError"
  by (simp add: eval_defs)

text \<open>
  When \<^verbatim>\<open>maybeReassignModel\<close> raises on a model string: exactly when the string is not
  native, matches the pattern as a non-instant model of version 3 or 3.0, and names no
  family.
\<close>

lemma maybeReassignModel_throws_iff:
  assumes "get (body req) ''model'' = JStr m"
  shows "maybeReassignModel req = Inl e \<longleftrightarrow>
           e = TypeError \<and> \<not> str_includes m ''anthropic.claude''
           \<and> (\<exists>g. match_pattern m = Some g \<and> g_instant g = None
                  \<and> (ver g = ''3'' \<or> ver g = ''3.0'') \<and> g_name g = None)"
  using assms
  by (auto simp: maybeReassignModel_def reassign_string_def split: option.splits if_splits)

text \<open>
  The pattern ignores case but \<^verbatim>\<open>name.includes\<close> does not: a family name in upper case
  takes part in the match and still falls to the sonnet branch.
\<close>

lemma upper_case_family_gets_sonnet:
  "maybeReassignModel (request_with_model ''claude-3-OPUS-20240229'')
     = Inr (request_with_model ''anthropic.claude-3-sonnet-20240229-v1:0'')"
  by (simp add: eval_defs)

section \<open>Properties of the routing\<close>

text \<open>
  C3. The claim: a legacy text request is rendered with the chat dialect if and only if
  the id produced by reconciliation is a claude-3 id, however the client spelled the
  model. On the code this fails, since the route handler decides on the string the client
  sent, before reconciliation runs: \<^verbatim>\<open>"claude-3-7-sonnet-20250219"\<close> contains \<^verbatim>\<open>claude-3\<close>
  and goes to the chat preprocessor, while reconciling the same string gives
  \<^verbatim>\<open>anthropic.claude-v2:1\<close>, which is no claude-3 id.
\<close>

theorem routing_by_reconciled_model_counterexample:
  "get (body (request_with_model ''claude-3-7-sonnet-20250219'')) ''model''
     = JStr ''claude-3-7-sonnet-20250219''
   \<and> preprocessAwsTextRequest (request_with_model ''claude-3-7-sonnet-20250219'')
       = Inr textToChatPreprocessor
   \<and> outApi textToChatPreprocessor = anthropic_chat
   \<and> maybeReassignModel (request_with_model ''claude-3-7-sonnet-20250219'')
       = Inr (request_with_model ''anthropic.claude-v2:1'')
   \<and> get (body (request_with_model ''anthropic.claude-v2:1'')) ''model''
       = JStr ''anthropic.claude-v2:1''
   \<and> \<not> str_includes ''anthropic.claude-v2:1'' ''claude-3''"
proof -
  have a: "preprocessAwsTextRequest (request_with_model ''claude-3-7-sonnet-20250219'')
             = Inr textToChatPreprocessor"
    by (simp add: preprocessAwsTextRequest_def optional_includes_def get_def
        request_with_model_def)
  have b: "maybeReassignModel (request_with_model ''claude-3-7-sonnet-20250219'')
             = Inr (request_with_model ''anthropic.claude-v2:1'')"
    by (simp add: eval_defs)
  have c: "get (body (request_with_model ''claude-3-7-sonnet-20250219'')) ''model''
             = JStr ''claude-3-7-sonnet-20250219''"
    by (simp add: get_def request_with_model_def)
  have d: "get (body (request_with_model ''anthropic.claude-v2:1'')) ''model''
             = JStr ''anthropic.claude-v2:1''"
    by (simp add: get_def request_with_model_def)
  have e: "outApi textToChatPreprocessor = anthropic_chat"
    by (simp add: textToChatPreprocessor_def)
  have g: "\<not> str_includes ''anthropic.claude-v2:1'' ''claude-3''" by simp
  show ?thesis by (intro conjI a b c d e g)
qed

text \<open>
  C3, as the code has it by design. On the text completion route
  (\<^verbatim>\<open>preprocessAwsTextRequest\<close>) and on the OpenAI-compatible route
  (\<^verbatim>\<open>preprocessOpenAICompatRequest\<close>) the outbound dialect is decided from the model string
  as the client sent it; reconciliation is a hook of the chosen preprocessor and runs
  after the choice. A request whose model string contains \<^verbatim>\<open>claude-3\<close> is rendered with the
  chat dialect, whatever id reconciliation produces for it. A request whose model string
  does not contain \<^verbatim>\<open>claude-3\<close> and whose reconciled id is not a claude-3 id either is
  rendered with the text dialect. Nothing is stated about a string without \<^verbatim>\<open>claude-3\<close>
  that reconciles to a claude-3 id.
\<close>

theorem routing_by_requested_model:
  assumes "get (body req) ''model'' = JStr m"
  shows "(str_includes m ''claude-3'' \<longrightarrow>
            preprocessAwsTextRequest req = Inr textToChatPreprocessor
          \<and> preprocessOpenAICompatRequest req = Inr oaiToAwsChatPreprocessor)
       \<and> (\<forall>req' i. \<not> str_includes m ''claude-3'' \<and> maybeReassignModel req = Inr req'
              \<and> get (body req') ''model'' = JStr i \<and> \<not> str_includes i ''claude-3'' \<longrightarrow>
            preprocessAwsTextRequest req = Inr nativeTextPreprocessor
          \<and> preprocessOpenAICompatRequest req = Inr oaiToAwsTextPreprocessor)
       \<and> inApi textToChatPreprocessor = anthropic_text
       \<and> outApi textToChatPreprocessor = anthropic_chat
       \<and> afterTransform textToChatPreprocessor = [maybeReassignModel]
       \<and> inApi nativeTextPreprocessor = anthropic_text
       \<and> outApi nativeTextPreprocessor = anthropic_text
       \<and> afterTransform nativeTextPreprocessor = [maybeReassignModel]
       \<and> inApi oaiToAwsChatPreprocessor = openai
       \<and> outApi oaiToAwsChatPreprocessor = anthropic_chat
       \<and> afterTransform oaiToAwsChatPreprocessor = [maybeReassignModel]
       \<and> inApi oaiToAwsTextPreprocessor = openai
       \<and> outApi oaiToAwsTextPreprocessor = anthropic_text
       \<and> afterTransform oaiToAwsTextPreprocessor = [maybeReassignModel]"
  using assms
  by (simp add: preprocessAwsTextRequest_def preprocessOpenAICompatRequest_def
      optional_includes_def textToChatPreprocessor_def nativeTextPreprocessor_def
      oaiToAwsChatPreprocessor_def oaiToAwsTextPreprocessor_def)

theorem routing_by_requested_model_witness:
  "str_includes ''claude-3-opus-20240229'' ''claude-3''
   \<and> preprocessAwsTextRequest (request_with_model ''claude-3-opus-20240229'')
       = Inr textToChatPreprocessor
   \<and> preprocessOpenAICompatRequest (request_with_model ''claude-3-opus-20240229'')
       = Inr oaiToAwsChatPreprocessor
   \<and> \<not> str_includes ''claude-v2'' ''claude-3''
   \<and> maybeReassignModel (request_with_model ''claude-v2'')
       = Inr (request_with_model ''anthropic.claude-v2'')
   \<and> \<not> str_includes ''anthropic.claude-v2'' ''claude-3''
   \<and> preprocessAwsTextRequest (request_with_model ''claude-v2'') = Inr nativeTextPreprocessor
   \<and> preprocessOpenAICompatRequest (request_with_model ''claude-v2'')
       = Inr oaiToAwsTextPreprocessor"
proof -
  have a: "get (body (request_with_model ''claude-3-opus-20240229'')) ''model''
             = JStr ''claude-3-opus-20240229''"
    by (simp add: get_def request_with_model_def)
  have b: "str_includes ''claude-3-opus-20240229'' ''claude-3''" by simp
  from routing_by_requested_model [OF a] b
  have c: "preprocessAwsTextRequest (request_with_model ''claude-3-opus-20240229'')
             = Inr textToChatPreprocessor"
      "preprocessOpenAICompatRequest (request_with_model ''claude-3-opus-20240229'')
             = Inr oaiToAwsChatPreprocessor"
    by blast+
  have d: "get (body (request_with_model ''claude-v2'')) ''model'' = JStr ''claude-v2''"
    by (simp add: get_def request_with_model_def)
  have e: "\<not> str_includes ''claude-v2'' ''claude-3''" by simp
  have f: "maybeReassignModel (request_with_model ''claude-v2'')
             = Inr (request_with_model ''anthropic.claude-v2'')"
    by (simp add: eval_defs)
  have g: "get (body (request_with_model ''anthropic.claude-v2'')) ''model''
             = JStr ''anthropic.claude-v2''"
    by (simp add: get_def request_with_model_def)
  have h: "\<not> str_includes ''anthropic.claude-v2'' ''claude-3''" by simp
  from routing_by_requested_model [OF d] e f g h
  have i: "preprocessAwsTextRequest (request_with_model ''claude-v2'') = Inr nativeTextPreprocessor"
      "preprocessOpenAICompatRequest (request_with_model ''claude-v2'')
         = Inr oaiToAwsTextPreprocessor"
    by blast+
  show ?thesis by (intro conjI b c e f h i)
qed

text \<open>
  The case the statement above leaves out. \<^verbatim>\<open>"Claude-3-opus-20240229"\<close> does not contain
  \<^verbatim>\<open>claude-3\<close> (the test is case sensitive, the pattern of reconciliation is not), so the
  request takes the text route; the hook then reconciles it to the claude-3 opus id, for
  which the comment on \<^verbatim>\<open>preprocessAwsTextRequest\<close> says the text endpoint does not work.
\<close>

lemma text_route_with_claude_3_id:
  "preprocessAwsTextRequest (request_with_model ''Claude-3-opus-20240229'')
     = Inr nativeTextPreprocessor
   \<and> outApi nativeTextPreprocessor = anthropic_text
   \<and> maybeReassignModel (request_with_model ''Claude-3-opus-20240229'')
       = Inr (request_with_model ''anthropic.claude-3-opus-20240229-v1:0'')
   \<and> str_includes ''anthropic.claude-3-opus-20240229-v1:0'' ''claude-3''"
proof -
  have a: "preprocessAwsTextRequest (request_with_model ''Claude-3-opus-20240229'')
             = Inr nativeTextPreprocessor"
    by (simp add: preprocessAwsTextRequest_def optional_includes_def get_def
        request_with_model_def)
  have b: "maybeReassignModel (request_with_model ''Claude-3-opus-20240229'')
             = Inr (request_with_model ''anthropic.claude-3-opus-20240229-v1:0'')"
    by (simp add: eval_defs)
  have c: "outApi nativeTextPreprocessor = anthropic_text"
    by (simp add: nativeTextPreprocessor_def)
  have d: "str_includes ''anthropic.claude-3-opus-20240229-v1:0'' ''claude-3''" by simp
  show ?thesis by (intro conjI a b c d)
qed

section \<open>Properties of the response handler\<close>




section \<open>Properties of the compatibility endpoint\<close>

text \<open>
  C4. A request to the compatibility endpoint whose action is \<^verbatim>\<open>messages\<close>, or whose body
  holds a message list, is answered by the handler itself: it sends the error with status
  code 400 and the two guidance fields, and it does not call \<^verbatim>\<open>next()\<close>, so the request
  never reaches the proxy. With the envelope of the specification the response has status
  400 and carries \<^verbatim>\<open>requested_endpoint\<close> and \<^verbatim>\<open>correct_endpoint\<close>.
\<close>

theorem compatibility_misuse_rejected:
  assumes "params_action req = ''messages'' \<or> (\<exists>ms. get (body req) ''messages'' = JArr ms)"
  shows "(\<exists>opts. handleCompatibilityRequest send req = Responded (send opts)
            \<and> statusCode opts = 400
            \<and> get (obj opts) ''requested_endpoint'' = JStr ''/aws/claude/sonnet''
            \<and> get (obj opts) ''correct_endpoint'' = JStr ''/aws/claude'')
       \<and> (\<exists>r e. handleCompatibilityRequest (sendErrorToClient ty) req = Responded r
            \<and> status r = 400
            \<and> get (json r) ''statusCode'' = JNum 400
            \<and> get (json r) ''error'' = JObj e
            \<and> get e ''title'' = JStr ''Unnecessary usage of compatibility endpoint''
            \<and> get (json r) ''requested_endpoint'' = JStr ''/aws/claude/sonnet''
            \<and> get (json r) ''correct_endpoint'' = JStr ''/aws/claude'')
       \<and> (\<forall>req'. handleCompatibilityRequest send req \<noteq> Next req')"
proof -
  from assms have rej: "params_action req = ''messages'' \<or> truthy (get (body req) ''messages'')"
    by auto
  then have h: "handleCompatibilityRequest sender req
                  = Responded (sender (misuse_options (req_id req)))" for sender
    by (simp add: handleCompatibilityRequest_def Let_def)
  have o: "statusCode (misuse_options rid) = 400"
     "get (obj (misuse_options rid)) ''requested_endpoint'' = JStr ''/aws/claude/sonnet''"
     "get (obj (misuse_options rid)) ''correct_endpoint'' = JStr ''/aws/claude''" for rid
    by (simp_all add: misuse_options_def get_def)
  let ?r = "sendErrorToClient ty (misuse_options (req_id req))"
  let ?e = "[(''title'', JStr (title (misuse_options (req_id req)))),
             (''message'', JStr (message (misuse_options (req_id req)))),
             (''type'', JStr ty)]"
  have r: "status ?r = 400" "get (json ?r) ''statusCode'' = JNum 400"
     "get (json ?r) ''error'' = JObj ?e"
     "get ?e ''title'' = JStr ''Unnecessary usage of compatibility endpoint''"
     "get (json ?r) ''requested_endpoint'' = JStr ''/aws/claude/sonnet''"
     "get (json ?r) ''correct_endpoint'' = JStr ''/aws/claude''"
    by (simp_all add: sendErrorToClient_def get_spread misuse_options_def) (simp_all add: get_def)
  from h [of send] o have "\<exists>opts. handleCompatibilityRequest send req = Responded (send opts)
            \<and> statusCode opts = 400
            \<and> get (obj opts) ''requested_endpoint'' = JStr ''/aws/claude/sonnet''
            \<and> get (obj opts) ''correct_endpoint'' = JStr ''/aws/claude''"
    by blast
  moreover from h [of "sendErrorToClient ty"] r
  have "\<exists>r e. handleCompatibilityRequest (sendErrorToClient ty) req = Responded r
            \<and> status r = 400
            \<and> get (json r) ''statusCode'' = JNum 400
            \<and> get (json r) ''error'' = JObj e
            \<and> get e ''title'' = JStr ''Unnecessary usage of compatibility endpoint''
            \<and> get (json r) ''requested_endpoint'' = JStr ''/aws/claude/sonnet''
            \<and> get (json r) ''correct_endpoint'' = JStr ''/aws/claude''"
    by blast
  moreover from h [of send] have "\<forall>req'. handleCompatibilityRequest send req \<noteq> Next req'"
    by simp
  ultimately show ?thesis by blast
qed

theorem compatibility_misuse_rejected_witness:
  "get (body ((request_with_model ''claude-2'')
               \<lparr>body := [(''model'', JStr ''claude-2''),
                          (''messages'', JArr [JObj [(''role'', JStr ''user''),
                                                     (''content'', JStr ''Hello'')]])]\<rparr>))
       ''messages''
     = JArr [JObj [(''role'', JStr ''user''), (''content'', JStr ''Hello'')]]
   \<and> (\<exists>r. handleCompatibilityRequest (sendErrorToClient ''proxy_error'')
              ((request_with_model ''claude-2'')
               \<lparr>body := [(''model'', JStr ''claude-2''),
                          (''messages'', JArr [JObj [(''role'', JStr ''user''),
                                                     (''content'', JStr ''Hello'')]])]\<rparr>)
            = Responded r
          \<and> status r = 400
          \<and> get (json r) ''correct_endpoint'' = JStr ''/aws/claude'')"
proof -
  let ?req = "(request_with_model ''claude-2'')
               \<lparr>body := [(''model'', JStr ''claude-2''),
                          (''messages'', JArr [JObj [(''role'', JStr ''user''),
                                                     (''content'', JStr ''Hello'')]])]\<rparr>"
  have a: "get (body ?req) ''messages''
             = JArr [JObj [(''role'', JStr ''user''), (''content'', JStr ''Hello'')]]"
    by (simp add: get_def request_with_model_def)
  then have "params_action ?req = ''messages'' \<or> (\<exists>ms. get (body ?req) ''messages'' = JArr ms)"
    by blast
  from compatibility_misuse_rejected [OF this, of "sendErrorToClient ''proxy_error''" "''proxy_error''"] a
  show ?thesis by blast
qed

text \<open>
  C10. Whenever the handler passes a request on, the request it passes on is the incoming
  one with \<^verbatim>\<open>body.model\<close> overwritten by the fixed sonnet-3.5 id, whatever model the client
  sent; and the handler passes on exactly the requests whose action is not \<^verbatim>\<open>messages\<close>
  and whose body has no truthy \<^verbatim>\<open>messages\<close>.
\<close>

theorem compatibility_request_forces_model:
  assumes "handleCompatibilityRequest send req = Next req'"
  shows "req' = req\<lparr>body := put (body req) ''model'' (JStr ''anthropic.claude-3-5-sonnet-20240620-v1:0'')\<rparr>
       \<and> get (body req') ''model'' = JStr ''anthropic.claude-3-5-sonnet-20240620-v1:0''
       \<and> params_action req \<noteq> ''messages'' \<and> \<not> truthy (get (body req) ''messages'')"
  using assms
  by (auto simp: handleCompatibilityRequest_def Let_def set_model_def compatModel_def
      get_put_same split: if_splits)

theorem compatibility_request_forces_model_witness:
  "handleCompatibilityRequest (\<lambda>opts. \<lparr>status = statusCode opts, json = obj opts\<rparr>)
       (request_with_model ''claude-2'')
     = Next (request_with_model ''anthropic.claude-3-5-sonnet-20240620-v1:0'')
   \<and> get (body (request_with_model ''anthropic.claude-3-5-sonnet-20240620-v1:0'')) ''model''
       = JStr ''anthropic.claude-3-5-sonnet-20240620-v1:0''"
proof -
  have a: "handleCompatibilityRequest (\<lambda>opts. \<lparr>status = statusCode opts, json = obj opts\<rparr>)
             (request_with_model ''claude-2'')
     = Next (request_with_model ''anthropic.claude-3-5-sonnet-20240620-v1:0'')"
    by (simp add: handleCompatibilityRequest_def Let_def request_with_model_def get_def
        set_model_def put_def compatModel_def)
  from compatibility_request_forces_model [OF a] a show ?thesis by blast
qed

section \<open>Properties of the serialiser\<close>

lemma get_rest:
  "map_of (AList.delete ''key'' r) f = (if f = ''key'' then None else map_of r f)"
  by (simp add: delete_conv')

text \<open>
  C7. For every serialised record with a string key, \<^verbatim>\<open>deserialize\<close> returns a key whose
  fingerprint is \<^verbatim>\<open>plm-\<close> followed by the first eight characters of the digest of the
  secret when the record has no \<^verbatim>\<open>hash\<close>; every property the record has is preserved; and
  every counter and flag the record omits takes its default (zero, not disabled, not
  revoked).
\<close>

theorem deserialize_defaults_and_preserves:
  assumes "get r ''key'' = JStr s"
  shows "\<exists>k. deserialize digest r = Inr k
           \<and> get k ''key'' = JStr s
           \<and> (map_of r ''hash'' = None \<longrightarrow> get k ''hash'' = JStr (''plm-'' @ take 8 (digest s)))
           \<and> (\<forall>f v. map_of r f = Some v \<longrightarrow> get k f = v)
           \<and> (map_of r ''service'' = None \<longrightarrow> get k ''service'' = JStr ''google-palm'')
           \<and> (map_of r ''modelFamilies'' = None \<longrightarrow> get k ''modelFamilies'' = JArr [JStr ''bison''])
           \<and> (map_of r ''isDisabled'' = None \<longrightarrow> get k ''isDisabled'' = JBool False)
           \<and> (map_of r ''isRevoked'' = None \<longrightarrow> get k ''isRevoked'' = JBool False)
           \<and> (map_of r ''promptCount'' = None \<longrightarrow> get k ''promptCount'' = JNum 0)
           \<and> (map_of r ''lastUsed'' = None \<longrightarrow> get k ''lastUsed'' = JNum 0)
           \<and> (map_of r ''lastChecked'' = None \<longrightarrow> get k ''lastChecked'' = JNum 0)
           \<and> (map_of r ''rateLimitedAt'' = None \<longrightarrow> get k ''rateLimitedAt'' = JNum 0)
           \<and> (map_of r ''rateLimitedUntil'' = None \<longrightarrow> get k ''rateLimitedUntil'' = JNum 0)
           \<and> (map_of r ''bisonTokens'' = None \<longrightarrow> get k ''bisonTokens'' = JNum 0)"
proof -
  let ?k = "spread
                    [(''key'', JStr s),
                     (''service'', JStr ''google-palm''),
                     (''modelFamilies'', JArr [JStr ''bison'']),
                     (''isDisabled'', JBool False),
                     (''isRevoked'', JBool False),
                     (''promptCount'', JNum 0),
                     (''lastUsed'', JNum 0),
                     (''rateLimitedAt'', JNum 0),
                     (''rateLimitedUntil'', JNum 0),
                     (''hash'', JStr (''plm-'' @ take 8 (digest s))),
                     (''lastChecked'', JNum 0),
                     (''bisonTokens'', JNum 0)]
                    (AList.delete ''key'' r)"
  from assms have d: "deserialize digest r = Inr ?k"
    by (simp add: deserialize_def)
  have key: "get ?k ''key'' = JStr s"
    by (simp add: get_spread get_rest) (simp add: get_def)
  have kept: "get ?k f = v" if "map_of r f = Some v" for f v
  proof (cases "f = ''key''")
    case True
    with that assms key show ?thesis by (simp add: get_def)
  next
    case False
    with that show ?thesis by (simp add: get_spread get_rest)
  qed
  have dflt: "get ?k f = get [(''key'', JStr s),
                     (''service'', JStr ''google-palm''),
                     (''modelFamilies'', JArr [JStr ''bison'']),
                     (''isDisabled'', JBool False),
                     (''isRevoked'', JBool False),
                     (''promptCount'', JNum 0),
                     (''lastUsed'', JNum 0),
                     (''rateLimitedAt'', JNum 0),
                     (''rateLimitedUntil'', JNum 0),
                     (''hash'', JStr (''plm-'' @ take 8 (digest s))),
                     (''lastChecked'', JNum 0),
                     (''bisonTokens'', JNum 0)] f" if "map_of r f = None" for f
    using that by (simp add: get_spread get_rest)
  have "map_of r ''hash'' = None \<longrightarrow> get ?k ''hash'' = JStr (''plm-'' @ take 8 (digest s))"
    using dflt [of "''hash''"] by (simp add: get_def)
  moreover have "map_of r ''service'' = None \<longrightarrow> get ?k ''service'' = JStr ''google-palm''"
    using dflt [of "''service''"] by (simp add: get_def)
  moreover have "map_of r ''modelFamilies'' = None \<longrightarrow> get ?k ''modelFamilies'' = JArr [JStr ''bison'']"
    using dflt [of "''modelFamilies''"] by (simp add: get_def)
  moreover have "map_of r ''isDisabled'' = None \<longrightarrow> get ?k ''isDisabled'' = JBool False"
    using dflt [of "''isDisabled''"] by (simp add: get_def)
  moreover have "map_of r ''isRevoked'' = None \<longrightarrow> get ?k ''isRevoked'' = JBool False"
    using dflt [of "''isRevoked''"] by (simp add: get_def)
  moreover have "map_of r ''promptCount'' = None \<longrightarrow> get ?k ''promptCount'' = JNum 0"
    using dflt [of "''promptCount''"] by (simp add: get_def)
  moreover have "map_of r ''lastUsed'' = None \<longrightarrow> get ?k ''lastUsed'' = JNum 0"
    using dflt [of "''lastUsed''"] by (simp add: get_def)
  moreover have "map_of r ''lastChecked'' = None \<longrightarrow> get ?k ''lastChecked'' = JNum 0"
    using dflt [of "''lastChecked''"] by (simp add: get_def)
  moreover have "map_of r ''rateLimitedAt'' = None \<longrightarrow> get ?k ''rateLimitedAt'' = JNum 0"
    using dflt [of "''rateLimitedAt''"] by (simp add: get_def)
  moreover have "map_of r ''rateLimitedUntil'' = None \<longrightarrow> get ?k ''rateLimitedUntil'' = JNum 0"
    using dflt [of "''rateLimitedUntil''"] by (simp add: get_def)
  moreover have "map_of r ''bisonTokens'' = None \<longrightarrow> get ?k ''bisonTokens'' = JNum 0"
    using dflt [of "''bisonTokens''"] by (simp add: get_def)
  moreover have "\<forall>f v. map_of r f = Some v \<longrightarrow> get ?k f = v"
    using kept by blast
  moreover note d key
  ultimately show ?thesis
    apply -
    apply (rule exI [of _ ?k])
    apply (intro conjI)
    apply assumption+
    done
qed

theorem deserialize_defaults_and_preserves_witness:
  "get [(''key'', JStr ''AIzaSy-example''), (''bisonTokens'', JNum 9000)] ''key''
     = JStr ''AIzaSy-example''
   \<and> deserialize example_digest [(''key'', JStr ''AIzaSy-example''), (''bisonTokens'', JNum 9000)]
     = Inr [(''key'', JStr ''AIzaSy-example''),
            (''service'', JStr ''google-palm''),
            (''modelFamilies'', JArr [JStr ''bison'']),
            (''isDisabled'', JBool False),
            (''isRevoked'', JBool False),
            (''promptCount'', JNum 0),
            (''lastUsed'', JNum 0),
            (''rateLimitedAt'', JNum 0),
            (''rateLimitedUntil'', JNum 0),
            (''hash'', JStr ''plm-5e884898''),
            (''lastChecked'', JNum 0),
            (''bisonTokens'', JNum 9000)]
   \<and> (\<exists>k. deserialize example_digest [(''key'', JStr ''AIzaSy-example''), (''bisonTokens'', JNum 9000)]
            = Inr k
          \<and> get k ''hash'' = JStr (''plm-'' @ take 8 (example_digest ''AIzaSy-example''))
          \<and> get k ''bisonTokens'' = JNum 9000
          \<and> get k ''isRevoked'' = JBool False)"
proof -
  let ?r = "[(''key'', JStr ''AIzaSy-example''), (''bisonTokens'', JNum 9000)]"
  have a: "get ?r ''key'' = JStr ''AIzaSy-example''" by (simp add: get_def)
  have b: "deserialize example_digest ?r
     = Inr [(''key'', JStr ''AIzaSy-example''),
            (''service'', JStr ''google-palm''),
            (''modelFamilies'', JArr [JStr ''bison'']),
            (''isDisabled'', JBool False),
            (''isRevoked'', JBool False),
            (''promptCount'', JNum 0),
            (''lastUsed'', JNum 0),
            (''rateLimitedAt'', JNum 0),
            (''rateLimitedUntil'', JNum 0),
            (''hash'', JStr ''plm-5e884898''),
            (''lastChecked'', JNum 0),
            (''bisonTokens'', JNum 9000)]"
    by (simp add: deserialize_def get_def spread_def AList.merge_def AList.update.simps example_digest_def)
  have c: "map_of ?r ''hash'' = None" "map_of ?r ''bisonTokens'' = Some (JNum 9000)"
    "map_of ?r ''isRevoked'' = None"
    by simp_all
  from deserialize_defaults_and_preserves [OF a, of example_digest]
  obtain k where k: "deserialize example_digest ?r = Inr k"
      "map_of ?r ''hash'' = None \<longrightarrow> get k ''hash'' = JStr (''plm-'' @ take 8 (example_digest ''AIzaSy-example''))"
      "\<forall>f v. map_of ?r f = Some v \<longrightarrow> get k f = v"
      "map_of ?r ''isRevoked'' = None \<longrightarrow> get k ''isRevoked'' = JBool False"
    by (elim exE conjE)
  from k(2) c(1) have k1: "get k ''hash'' = JStr (''plm-'' @ take 8 (example_digest ''AIzaSy-example''))"
    by (rule mp)
  from k(3) c(2) have k2: "get k ''bisonTokens'' = JNum 9000"
    by blast
  from k(4) c(3) have k3: "get k ''isRevoked'' = JBool False"
    by (rule mp)
  from k(1) k1 k2 k3
  have "\<exists>k. deserialize example_digest ?r = Inr k
          \<and> get k ''hash'' = JStr (''plm-'' @ take 8 (example_digest ''AIzaSy-example''))
          \<and> get k ''bisonTokens'' = JNum 9000
          \<and> get k ''isRevoked'' = JBool False"
    by (intro exI [of _ k] conjI)
  with a b show ?thesis by (intro conjI)
qed

text \<open>
  C8. The claim: \<^verbatim>\<open>serialize\<close> produces a record with the full list of persisted fields. On
  the code this fails: for a key that has a prompt count, a disabled flag, a fingerprint
  and a service tag, the serialised record has none of them; it is the secret alone.
\<close>

theorem serialize_full_record_counterexample:
  "get example_key ''promptCount'' = JNum 42
   \<and> get (serialize example_key) ''promptCount'' = JUndefined
   \<and> get example_key ''isDisabled'' = JBool True
   \<and> get (serialize example_key) ''isDisabled'' = JUndefined
   \<and> get example_key ''hash'' = JStr ''plm-0a1b2c3d''
   \<and> get (serialize example_key) ''hash'' = JUndefined
   \<and> get example_key ''service'' = JStr ''google-palm''
   \<and> get (serialize example_key) ''service'' = JUndefined
   \<and> serialize example_key = [(''key'', JStr ''AIzaSy-example'')]"
proof -
  have a: "get example_key ''promptCount'' = JNum 42"
      "get example_key ''isDisabled'' = JBool True"
      "get example_key ''hash'' = JStr ''plm-0a1b2c3d''"
      "get example_key ''service'' = JStr ''google-palm''"
    by (simp_all add: example_key_def get_def)
  have b: "serialize example_key = [(''key'', JStr ''AIzaSy-example'')]"
    by (simp add: serialize_def example_key_def get_def)
  have c: "get (serialize example_key) ''promptCount'' = JUndefined"
      "get (serialize example_key) ''isDisabled'' = JUndefined"
      "get (serialize example_key) ''hash'' = JUndefined"
      "get (serialize example_key) ''service'' = JUndefined"
    by (simp_all add: serialize_def get_def)
  show ?thesis by (intro conjI a b c)
qed

text \<open>
  C8, as the code has it: the serialised record has exactly one property, \<^verbatim>\<open>key\<close>, with
  the secret of the credential; every other property is absent.
\<close>

theorem serialize_only_secret:
  "get (serialize k) ''key'' = get k ''key''
   \<and> (\<forall>f. f \<noteq> ''key'' \<longrightarrow> get (serialize k) f = JUndefined)
   \<and> map fst (serialize k) = [''key'']"
  by (simp add: serialize_def get_def)

theorem serialize_only_secret_witness:
  "get (serialize example_key) ''key'' = JStr ''AIzaSy-example''
   \<and> get (serialize example_key) ''bisonTokens'' = JUndefined"
proof -
  have "get example_key ''key'' = JStr ''AIzaSy-example''"
    by (simp add: example_key_def get_def)
  moreover have "''bisonTokens'' \<noteq> ''key''" by simp
  ultimately show ?thesis using serialize_only_secret [of example_key] by simp
qed

text \<open>
  C9. The round trip loses all usage and health state: for every key with a string
  secret, \<^verbatim>\<open>deserialize(serialize(k))\<close> is the key made of that secret, the fingerprint
  derived from it, and the defaults: all counters and timestamps 0, not disabled, not
  revoked, whatever they were in \<open>k\<close>.
\<close>

theorem round_trip_resets_state:
  assumes "get k ''key'' = JStr s"
  shows "deserialize digest (serialize k)
           = Inr [(''key'', JStr s),
                  (''service'', JStr ''google-palm''),
                  (''modelFamilies'', JArr [JStr ''bison'']),
                  (''isDisabled'', JBool False),
                  (''isRevoked'', JBool False),
                  (''promptCount'', JNum 0),
                  (''lastUsed'', JNum 0),
                  (''rateLimitedAt'', JNum 0),
                  (''rateLimitedUntil'', JNum 0),
                  (''hash'', JStr (''plm-'' @ take 8 (digest s))),
                  (''lastChecked'', JNum 0),
                  (''bisonTokens'', JNum 0)]"
proof -
  have "get (serialize k) ''key'' = JStr s"
    using assms by (simp add: serialize_def get_def)
  moreover have "AList.delete ''key'' (serialize k) = []"
    by (simp add: serialize_def)
  ultimately show ?thesis
    by (simp add: deserialize_def spread_def AList.merge_def)
qed

theorem round_trip_resets_state_witness:
  "get example_key ''promptCount'' = JNum 42
   \<and> get example_key ''isDisabled'' = JBool True
   \<and> get example_key ''bisonTokens'' = JNum 9000
   \<and> deserialize example_digest (serialize example_key)
           = Inr [(''key'', JStr ''AIzaSy-example''),
                  (''service'', JStr ''google-palm''),
                  (''modelFamilies'', JArr [JStr ''bison'']),
                  (''isDisabled'', JBool False),
                  (''isRevoked'', JBool False),
                  (''promptCount'', JNum 0),
                  (''lastUsed'', JNum 0),
                  (''rateLimitedAt'', JNum 0),
                  (''rateLimitedUntil'', JNum 0),
                  (''hash'', JStr ''plm-5e884898''),
                  (''lastChecked'', JNum 0),
                  (''bisonTokens'', JNum 0)]"
proof -
  have a: "get example_key ''key'' = JStr ''AIzaSy-example''"
    by (simp add: example_key_def get_def)
  have b: "get example_key ''promptCount'' = JNum 42" "get example_key ''isDisabled'' = JBool True"
    "get example_key ''bisonTokens'' = JNum 9000"
    by (simp_all add: example_key_def get_def)
  have c: "''plm-'' @ take 8 (example_digest ''AIzaSy-example'') = ''plm-5e884898''"
    by (simp add: example_digest_def)
  have d: "deserialize example_digest (serialize example_key)
           = Inr [(''key'', JStr ''AIzaSy-example''),
                  (''service'', JStr ''google-palm''),
                  (''modelFamilies'', JArr [JStr ''bison'']),
                  (''isDisabled'', JBool False),
                  (''isRevoked'', JBool False),
                  (''promptCount'', JNum 0),
                  (''lastUsed'', JNum 0),
                  (''rateLimitedAt'', JNum 0),
                  (''rateLimitedUntil'', JNum 0),
                  (''hash'', JStr ''plm-5e884898''),
                  (''lastChecked'', JNum 0),
                  (''bisonTokens'', JNum 0)]"
    using round_trip_resets_state [OF a, of example_digest] by (simp only: c)
  show ?thesis by (intro conjI b d)
qed

end
